theory Spec2Isabelle
  imports Main "HOL-Library.Multiset"
begin

section \<open>Strings\<close>

text \<open>
  A JavaScript string is modelled as a \<^typ>\<open>string\<close>, one \<^typ>\<open>char\<close> per code unit.
  Every pattern and separator of \<^verbatim>\<open>extension.ts\<close> is ASCII, and a code unit outside
  ASCII never matches an ASCII pattern character, with or without the \<^verbatim>\<open>i\<close> flag.
\<close>

abbreviation (input) backslash :: char where
  "backslash \<equiv> CHR 0x5C"

abbreviation (input) newline :: char where
  "newline \<equiv> CHR 0x0A"

definition isUpper :: "char \<Rightarrow> bool" where
  "isUpper c = (65 \<le> (of_char c :: nat) \<and> (of_char c :: nat) \<le> 90)"

definition isLower :: "char \<Rightarrow> bool" where
  "isLower c = (97 \<le> (of_char c :: nat) \<and> (of_char c :: nat) \<le> 122)"

definition isLetter :: "char \<Rightarrow> bool" where
  "isLetter c = (isUpper c \<or> isLower c)"

definition lowerChar :: "char \<Rightarrow> char" where
  "lowerChar c = (if isUpper c then char_of (of_char c + 32 :: nat) else c)"

definition upperChar :: "char \<Rightarrow> char" where
  "upperChar c = (if isLower c then char_of (of_char c - 32 :: nat) else c)"

text \<open>
  \<^verbatim>\<open>String.prototype.toLowerCase\<close>. The source applies it to the captured drive letter
  only, an ASCII letter, where it is the ASCII lower-casing.
\<close>

definition toLowerCase :: "string \<Rightarrow> string" where
  "toLowerCase s = map lowerChar s"

text \<open>\<^verbatim>\<open>s.replace(/c/g, d)\<close> for a one-character pattern.\<close>

definition replaceAll :: "char \<Rightarrow> char \<Rightarrow> string \<Rightarrow> string" where
  "replaceAll c d s = map (\<lambda>x. if x = c then d else x) s"

text \<open>
  \<^verbatim>\<open>s.split(sep)\<close> cuts at every separator and keeps empty pieces, so the result is
  never the empty array: \<^verbatim>\<open>''.split('/')\<close> is \<^verbatim>\<open>['']\<close>.
\<close>

fun splitBy :: "(char \<Rightarrow> bool) \<Rightarrow> string \<Rightarrow> string list" where
  "splitBy p [] = [[]]"
| "splitBy p (c # s) =
     (let r = splitBy p s in if p c then [] # r else (c # hd r) # tl r)"

definition split_str :: "char \<Rightarrow> string \<Rightarrow> string list" where
  "split_str sep s = splitBy (\<lambda>c. c = sep) s"

fun join_str :: "string \<Rightarrow> string list \<Rightarrow> string" where
  "join_str d [] = []"
| "join_str d [x] = x"
| "join_str d (x # y # ys) = x @ d @ join_str d (y # ys)"

text \<open>
  Template-literal rendering \<^verbatim>\<open>${n}\<close> of a line number: the decimal digits of a
  non-negative integer.
\<close>

definition digit :: "nat \<Rightarrow> char" where
  "digit d = char_of (48 + d)"

function numberToString :: "nat \<Rightarrow> string" where
  "numberToString n =
     (if n < 10 then [digit n] else numberToString (n div 10) @ [digit (n mod 10)])"
  by pat_completeness auto
termination
  by (relation "measure (\<lambda>n. n)") auto

declare numberToString.simps [simp del]

section \<open>Regular expressions\<close>

text \<open>
  The two patterns of the source are anchored at the start (\<^verbatim>\<open>^\<close>) and are a sequence of
  one-character atoms: a literal or a bracket class. An atom is the list of the inclusive
  character ranges it accepts; a literal \<open>c\<close> is the single range \<open>(c, c)\<close>. With the
  \<^verbatim>\<open>i\<close> flag a character matches an atom when one of its case variants is in the atom.
\<close>

type_synonym atom = "(char \<times> char) list"

definition lit :: "char \<Rightarrow> atom" where
  "lit c = [(c, c)]"

record RegExp =
  atoms :: "atom list"
  ignoreCase :: bool

definition inRange :: "char \<times> char \<Rightarrow> char \<Rightarrow> bool" where
  "inRange r c = ((of_char (fst r) :: nat) \<le> of_char c \<and> (of_char c :: nat) \<le> of_char (snd r))"

definition atomMatches :: "bool \<Rightarrow> atom \<Rightarrow> char \<Rightarrow> bool" where
  "atomMatches ic a c =
     list_ex (\<lambda>r. inRange r c \<or> (ic \<and> (inRange r (upperChar c) \<or> inRange r (lowerChar c)))) a"

fun matchPrefix :: "bool \<Rightarrow> atom list \<Rightarrow> string \<Rightarrow> string option" where
  "matchPrefix ic [] s = Some []"
| "matchPrefix ic (a # as) [] = None"
| "matchPrefix ic (a # as) (c # s) =
     (if atomMatches ic a c then map_option ((#) c) (matchPrefix ic as s) else None)"

text \<open>\<^verbatim>\<open>s.match(re)\<close>: the matched text \<^verbatim>\<open>match[0]\<close>, or \<open>None\<close> for \<^verbatim>\<open>null\<close>.\<close>

definition match :: "RegExp \<Rightarrow> string \<Rightarrow> string option" where
  "match re s = matchPrefix (ignoreCase re) (atoms re) s"

text \<open>\<^verbatim>\<open>re.test(s)\<close>.\<close>

definition test :: "RegExp \<Rightarrow> string \<Rightarrow> bool" where
  "test re s = (match re s \<noteq> None)"

section \<open>Path dialects (extension.ts, lines 13 to 52)\<close>

text \<open>\<^verbatim>\<open>const windowsDrivePattern = /^([A-Za-z]):[\\\/]/;\<close>\<close>

definition windowsDrivePattern :: RegExp where
  "windowsDrivePattern =
     \<lparr>atoms = [[(CHR ''A'', CHR ''Z''), (CHR ''a'', CHR ''z'')],
               lit (CHR '':''),
               [(backslash, backslash), (CHR ''/'', CHR ''/'')]],
      ignoreCase = False\<rparr>"

text \<open>\<^verbatim>\<open>/^\/mnt\/[a-z]\//i\<close>, the pattern of \<^verbatim>\<open>isWslMountPath\<close>.\<close>

definition wslMountPattern :: RegExp where
  "wslMountPattern =
     \<lparr>atoms = [lit (CHR ''/''), lit (CHR ''m''), lit (CHR ''n''), lit (CHR ''t''),
               lit (CHR ''/''), [(CHR ''a'', CHR ''z'')], lit (CHR ''/'')],
      ignoreCase = True\<rparr>"

definition isWindowsPath :: "string \<Rightarrow> bool" where
  "isWindowsPath filePath = test windowsDrivePattern filePath"

text \<open>
  Capture group 1 of \<open>windowsDrivePattern\<close> encloses its first atom, so \<^verbatim>\<open>match[1]\<close> is the
  first character of the matched text.
\<close>

definition getWindowsDriveLetter :: "string \<Rightarrow> string option" where
  "getWindowsDriveLetter filePath =
     (case match windowsDrivePattern filePath of
        None \<Rightarrow> None
      | Some m \<Rightarrow> Some (toLowerCase (take 1 m)))"

definition isWslMountPath :: "string \<Rightarrow> bool" where
  "isWslMountPath filePath = test wslMountPattern filePath"

definition windowsToWslPath :: "string \<Rightarrow> string" where
  "windowsToWslPath windowsPath =
     (case match windowsDrivePattern windowsPath of
        None \<Rightarrow> windowsPath
      | Some m \<Rightarrow>
          (let driveLetter = toLowerCase (take 1 m);
               pathWithoutDrive = replaceAll backslash (CHR ''/'') (drop 2 windowsPath)
           in ''/mnt/'' @ driveLetter @ pathWithoutDrive))"

section \<open>The path module\<close>

text \<open>
  \<^verbatim>\<open>toRelative\<close> uses two path modules of the Node.js runtime: \<^verbatim>\<open>pathNative\<close>
  (\<^verbatim>\<open>import * as pathNative from 'path'\<close>, the module of the host platform) and
  \<^verbatim>\<open>posixPath\<close> (\<^verbatim>\<open>require('path/posix')\<close>). Of a module it reads \<^verbatim>\<open>relative\<close> and
  \<^verbatim>\<open>sep\<close>. The model of \<open>toRelative\<close> takes both modules as parameters.
\<close>

record PathModule =
  relative :: "string \<Rightarrow> string \<Rightarrow> string"
  sep :: char

text \<open>
  Modelled from the spec: the non-empty segments of a path and the length of the common prefix
  of two segment lists, the two ingredients of the segment-relative algorithm of section 4.2;
  the Node.js path modules that compute them are not part of the repository.
\<close>

definition segments :: "(char \<Rightarrow> bool) \<Rightarrow> string \<Rightarrow> string list" where
  "segments isSep p = filter (\<lambda>x. x \<noteq> []) (splitBy isSep p)"

fun commonPrefixLength :: "string list \<Rightarrow> string list \<Rightarrow> nat" where
  "commonPrefixLength (x # xs) (y # ys) = (if x = y then Suc (commonPrefixLength xs ys) else 0)"
| "commonPrefixLength _ _ = 0"

text \<open>
  Modelled from the spec: the \<^verbatim>\<open>relative\<close> function of the Node.js path modules, which
  is not part of the repository. The spec (section 4.2) gives the segment-relative algorithm:
  split both paths into non-empty segments by their separator; find the length of the common
  prefix of segments; emit one \<^verbatim>\<open>..\<close> per remaining segment of \<^verbatim>\<open>from\<close>, then the
  remaining segments of \<^verbatim>\<open>to\<close>, joined by the separator; identical paths give the empty
  string. The model takes absolute paths without \<^verbatim>\<open>.\<close> and \<^verbatim>\<open>..\<close> segments, as the
  spec does: it does not resolve against a working directory.
\<close>

definition segmentRelative :: "(char \<Rightarrow> bool) \<Rightarrow> char \<Rightarrow> string \<Rightarrow> string \<Rightarrow> string" where
  "segmentRelative isSep s from to =
     (let fs = segments isSep from;
          ts = segments isSep to;
          n = commonPrefixLength fs ts
      in join_str [s] (replicate (length fs - n) ''..'' @ drop n ts))"

text \<open>
  Modelled from the spec: \<^verbatim>\<open>path/posix\<close>, with the forward slash as its separator.
\<close>

definition posix :: PathModule where
  "posix = \<lparr>relative = segmentRelative (\<lambda>c. c = CHR ''/'') (CHR ''/''), sep = CHR ''/''\<rparr>"

text \<open>
  Modelled from the spec: \<^verbatim>\<open>path/win32\<close>, whose results are backslash-joined. A
  NativeWindows path may have either slash after its drive, so both separate segments.
\<close>

definition win32 :: PathModule where
  "win32 = \<lparr>relative = segmentRelative (\<lambda>c. c = backslash \<or> c = CHR ''/'') backslash,
             sep = backslash\<rparr>"

text \<open>The module \<^verbatim>\<open>path\<close> is \<^verbatim>\<open>path/win32\<close> on a Windows host and \<^verbatim>\<open>path/posix\<close> elsewhere.\<close>

datatype platform = PosixHost | Win32Host

fun nativeModule :: "platform \<Rightarrow> PathModule" where
  "nativeModule PosixHost = posix"
| "nativeModule Win32Host = win32"

section \<open>toRelative (extension.ts, lines 57 to 104)\<close>

record Uri =
  fsPath :: string

text \<open>JavaScript truthiness of a \<^verbatim>\<open>string | undefined\<close>: neither undefined nor empty.\<close>

fun truthy :: "string option \<Rightarrow> bool" where
  "truthy None = False"
| "truthy (Some s) = (s \<noteq> [])"

definition toRelative ::
  "PathModule \<Rightarrow> PathModule \<Rightarrow> Uri option \<Rightarrow> Uri option \<Rightarrow> string option" where
  "toRelative posixPath pathNative from to =
     (case (from, to) of
        (None, _) \<Rightarrow> None
      | (_, None) \<Rightarrow> None
      | (Some f, Some t) \<Rightarrow>
          (let fromPath = fsPath f; toPath = fsPath t in
           if isWindowsPath fromPath \<and> isWindowsPath toPath
              \<and> truthy (getWindowsDriveLetter fromPath) \<and> truthy (getWindowsDriveLetter toPath)
              \<and> getWindowsDriveLetter fromPath \<noteq> getWindowsDriveLetter toPath
           then Some toPath
           else if isWslMountPath fromPath \<and> isWindowsPath toPath
           then Some (relative posixPath fromPath (windowsToWslPath toPath))
           else if isWindowsPath fromPath \<and> isWslMountPath toPath
           then Some (relative posixPath (windowsToWslPath fromPath) toPath)
           else
             (let relativePath = relative pathNative fromPath toPath in
              if isWindowsPath fromPath then Some relativePath
              else Some (join_str ''/'' (split_str (sep pathNative) relativePath)))))"

section \<open>The mention commands (extension.ts, lines 107 to 193)\<close>

text \<open>
  The editor and terminal state the commands read, and the two configured strings. Line
  numbers of a selection are 0-based.
\<close>

record Selection =
  isEmpty :: bool
  start_line :: nat
  end_line :: nat

record TextEditor =
  documentUri :: "Uri option"
  selection :: Selection

record TerminalShellIntegration =
  cwd :: "Uri option"

record Terminal =
  shellIntegration :: "TerminalShellIntegration option"

record Env =
  prefixString :: string
  suffixString :: string
  activeTextEditor :: "TextEditor option"
  activeTerminal :: "Terminal option"

definition getRelativePathWithTerminal ::
  "PathModule \<Rightarrow> PathModule \<Rightarrow> TextEditor option \<Rightarrow> Terminal option \<Rightarrow> string option" where
  "getRelativePathWithTerminal posixPath pathNative editor terminal =
     (case terminal of
        None \<Rightarrow> None
      | Some term \<Rightarrow>
          (case editor of
             None \<Rightarrow> None
           | Some ed \<Rightarrow>
               (case (case shellIntegration term of None \<Rightarrow> None | Some si \<Rightarrow> cwd si) of
                  None \<Rightarrow> None
                | Some c \<Rightarrow>
                    (case documentUri ed of
                       None \<Rightarrow> None
                     | Some fileUri \<Rightarrow> toRelative posixPath pathNative (Some c) (Some fileUri)))))"

definition getClaudeCodeFormatLineSelected :: "nat \<Rightarrow> nat \<Rightarrow> string" where
  "getClaudeCodeFormatLineSelected startLine endLine =
     (if startLine = endLine then ''#L'' @ numberToString startLine
      else ''#L'' @ numberToString startLine @ ''-'' @ numberToString endLine)"

definition getCodexFormatLineSelected :: "nat \<Rightarrow> nat \<Rightarrow> string" where
  "getCodexFormatLineSelected startLine endLine =
     (if startLine = endLine then '':'' @ numberToString startLine
      else '':'' @ numberToString startLine @ ''-'' @ numberToString endLine)"

text \<open>The custom format reads the module variable \<^verbatim>\<open>suffixString\<close> when it is called.\<close>

definition getCustomFormatLineSelected :: "Env \<Rightarrow> nat \<Rightarrow> nat \<Rightarrow> string" where
  "getCustomFormatLineSelected env startLine endLine =
     (if startLine = endLine then suffixString env @ numberToString startLine
      else suffixString env @ numberToString startLine @ ''-'' @ numberToString endLine)"

text \<open>
  \<open>setMentionStrings\<close> returns the text handed to \<^verbatim>\<open>terminal.sendText\<close>, or \<open>None\<close> when it
  returns before sending. The guard \<^verbatim>\<open>if (!relativePath)\<close> is JavaScript falsiness.
  Logging and the trace-level information message are left out: they do not reach the
  terminal.
\<close>

definition setMentionStrings ::
  "PathModule \<Rightarrow> PathModule \<Rightarrow> Env \<Rightarrow> (nat \<Rightarrow> nat \<Rightarrow> string) \<Rightarrow> string option" where
  "setMentionStrings posixPath pathNative env mentionFormatedFunc =
     (let editor = activeTextEditor env;
          terminal = activeTerminal env;
          relativePath = getRelativePathWithTerminal posixPath pathNative editor terminal
      in if \<not> truthy relativePath then None
         else
           (let mentionedText = prefixString env @ the relativePath;
                mentionedText' =
                  (case editor of
                     None \<Rightarrow> mentionedText
                   | Some ed \<Rightarrow>
                       if isEmpty (selection ed) = False
                       then (let startLine = start_line (selection ed) + 1;
                                 endLine = end_line (selection ed) + 1;
                                 lineAdder = mentionFormatedFunc startLine endLine
                             in mentionedText @ lineAdder)
                       else mentionedText)
            in Some (mentionedText' @ '' '')))"

text \<open>The three registered commands.\<close>

definition codexMention :: "PathModule \<Rightarrow> PathModule \<Rightarrow> Env \<Rightarrow> string option" where
  "codexMention posixPath pathNative env =
     setMentionStrings posixPath pathNative env getCodexFormatLineSelected"

definition claudecodeMention :: "PathModule \<Rightarrow> PathModule \<Rightarrow> Env \<Rightarrow> string option" where
  "claudecodeMention posixPath pathNative env =
     setMentionStrings posixPath pathNative env getClaudeCodeFormatLineSelected"

definition customMention :: "PathModule \<Rightarrow> PathModule \<Rightarrow> Env \<Rightarrow> string option" where
  "customMention posixPath pathNative env =
     setMentionStrings posixPath pathNative env (getCustomFormatLineSelected env)"

section \<open>The quick fix (codeActionProvider.ts, lines 70 to 83 and 168 to 217)\<close>

text \<open>
  \<^verbatim>\<open>vscode.DiagnosticSeverity\<close> is a numeric enum: Error = 0, Warning = 1,
  Information = 2, Hint = 3. The \<^verbatim>\<open>switch\<close> has a \<^verbatim>\<open>default\<close> for any other number.
\<close>

type_synonym DiagnosticSeverity = nat

definition Error :: DiagnosticSeverity where "Error = 0"
definition Warning :: DiagnosticSeverity where "Warning = 1"
definition Information :: DiagnosticSeverity where "Information = 2"
definition Hint :: DiagnosticSeverity where "Hint = 3"

definition getDiagnosticSeverityString :: "DiagnosticSeverity \<Rightarrow> string" where
  "getDiagnosticSeverityString severity =
     (if severity = Error then ''Error''
      else if severity = Warning then ''Warning''
      else if severity = Information then ''Information''
      else if severity = Hint then ''Hint''
      else ''Unknown'')"

text \<open>A diagnostic: the 0-based lines of its range, its severity and its message.\<close>

record Diagnostic =
  rangeStartLine :: nat
  rangeEndLine :: nat
  severity :: DiagnosticSeverity
  message :: string

text \<open>
  \<open>sendToTerminal\<close> returns the text handed to \<^verbatim>\<open>terminal.sendText\<close>. The prompt is the value
  of the setting \<^verbatim>\<open>quickFixPrompt\<close> read from the configuration.
\<close>

definition sendToTerminal :: "string \<Rightarrow> string \<Rightarrow> Diagnostic \<Rightarrow> string" where
  "sendToTerminal quickFixPrompt filePath diagnostic =
     (let startLine = rangeStartLine diagnostic + 1;
          endLine = rangeEndLine diagnostic + 1;
          mention = ''@'' @ filePath;
          mention' =
            (if startLine = endLine then mention @ ''#L'' @ numberToString startLine
             else mention @ ''#L'' @ numberToString startLine @ ''-'' @ numberToString endLine);
          severityString = getDiagnosticSeverityString (severity diagnostic)
      in quickFixPrompt @ [newline, newline] @ mention' @ [newline] @ severityString @ '': ''
           @ message diagnostic)"

section \<open>Dialects and the case analysis of toRelative\<close>

text \<open>
  The source never builds a dialect value: it asks \<open>isWindowsPath\<close> and \<open>isWslMountPath\<close>.
  \<open>classify\<close> names the dialect of a path as section 4.1 of the spec words it, in terms of
  these two tests of the source.
\<close>

datatype PathDialect = NativePosix | NativeWindows | WslMount

definition classify :: "string \<Rightarrow> PathDialect" where
  "classify raw =
     (if isWindowsPath raw then NativeWindows
      else if isWslMountPath raw then WslMount
      else NativePosix)"

text \<open>The guards of the three special cases of \<open>toRelative\<close>, in the order of the source.\<close>

definition crossDrive :: "string \<Rightarrow> string \<Rightarrow> bool" where
  "crossDrive fromPath toPath =
     (isWindowsPath fromPath \<and> isWindowsPath toPath
      \<and> truthy (getWindowsDriveLetter fromPath) \<and> truthy (getWindowsDriveLetter toPath)
      \<and> getWindowsDriveLetter fromPath \<noteq> getWindowsDriveLetter toPath)"

definition wslFromWindowsTo :: "string \<Rightarrow> string \<Rightarrow> bool" where
  "wslFromWindowsTo fromPath toPath = (isWslMountPath fromPath \<and> isWindowsPath toPath)"

definition windowsFromWslTo :: "string \<Rightarrow> string \<Rightarrow> bool" where
  "windowsFromWslTo fromPath toPath = (isWindowsPath fromPath \<and> isWslMountPath toPath)"

text \<open>The standard case, lines 94 to 103.\<close>

definition standardCase :: "PathModule \<Rightarrow> string \<Rightarrow> string \<Rightarrow> string" where
  "standardCase pathNative fromPath toPath =
     (let relativePath = relative pathNative fromPath toPath in
      if isWindowsPath fromPath then relativePath
      else join_str ''/'' (split_str (sep pathNative) relativePath))"

text \<open>The three guarded cases as a list of guard and result, and a first-match evaluation.\<close>

definition guardedCases :: "PathModule \<Rightarrow> string \<Rightarrow> string \<Rightarrow> (bool \<times> string) list" where
  "guardedCases posixPath fromPath toPath =
     [(crossDrive fromPath toPath, toPath),
      (wslFromWindowsTo fromPath toPath, relative posixPath fromPath (windowsToWslPath toPath)),
      (windowsFromWslTo fromPath toPath, relative posixPath (windowsToWslPath fromPath) toPath)]"

fun firstMatch :: "(bool \<times> 'a) list \<Rightarrow> 'a \<Rightarrow> 'a" where
  "firstMatch [] d = d"
| "firstMatch ((g, v) # bs) d = (if g then v else firstMatch bs d)"

text \<open>
  The closed case analysis over the pair of dialects that section 9 of the spec proposes, to be
  compared with the conditional chain of the source.
\<close>

definition toRelative_byDialect :: "PathModule \<Rightarrow> PathModule \<Rightarrow> string \<Rightarrow> string \<Rightarrow> string" where
  "toRelative_byDialect posixPath pathNative fromPath toPath =
     (case (classify fromPath, classify toPath) of
        (NativeWindows, NativeWindows) \<Rightarrow>
          if getWindowsDriveLetter fromPath \<noteq> getWindowsDriveLetter toPath then toPath
          else standardCase pathNative fromPath toPath
      | (WslMount, NativeWindows) \<Rightarrow> relative posixPath fromPath (windowsToWslPath toPath)
      | (NativeWindows, WslMount) \<Rightarrow> relative posixPath (windowsToWslPath fromPath) toPath
      | _ \<Rightarrow> standardCase pathNative fromPath toPath)"

section \<open>Characters and patterns\<close>

lemma inRange_lit: "inRange (a, a) c \<longleftrightarrow> c = a"
  by (auto simp: inRange_def)

lemma char_eq_nat: "(c = d) \<longleftrightarrow> ((of_char c :: nat) = of_char d)"
  by simp

lemma of_char_lowerChar:
  "(of_char (lowerChar c) :: nat) = (if isUpper c then of_char c + 32 else of_char c)"
  by (simp add: lowerChar_def isUpper_def)

lemma of_char_upperChar:
  "(of_char (upperChar c) :: nat) = (if isLower c then of_char c - 32 else of_char c)"
proof (cases "isLower c")
  case True
  then have "(of_char c :: nat) - 32 < 256" unfolding isLower_def by arith
  with True show ?thesis by (simp add: upperChar_def)
next
  case False then show ?thesis by (simp add: upperChar_def)
qed

lemma atomMatches_lit_lower:
  assumes "isLower a"
  shows "atomMatches True (lit a) c \<longleftrightarrow> lowerChar c = a"
  using assms
  by (auto simp: atomMatches_def lit_def inRange_lit char_eq_nat of_char_lowerChar of_char_upperChar isLower_def isUpper_def
      simp del: of_char_eq_iff split: if_splits)

lemma atomMatches_lit_other:
  assumes "\<not> isLetter a"
  shows "atomMatches ic (lit a) c \<longleftrightarrow> c = a"
  using assms
  by (auto simp: atomMatches_def lit_def inRange_lit char_eq_nat of_char_lowerChar of_char_upperChar isLower_def isUpper_def isLetter_def
      simp del: of_char_eq_iff split: if_splits)

lemma atomMatches_az_ic: "atomMatches True [(CHR ''a'', CHR ''z'')] c \<longleftrightarrow> isLetter c"
  by (auto simp: atomMatches_def inRange_def of_char_lowerChar of_char_upperChar isLower_def isUpper_def isLetter_def
      split: if_splits)

lemma atomMatches_AZaz: "atomMatches False [(CHR ''A'', CHR ''Z''), (CHR ''a'', CHR ''z'')] c \<longleftrightarrow> isLetter c"
  by (auto simp: atomMatches_def inRange_def isLower_def isUpper_def isLetter_def)

lemma atomMatches_seps: "atomMatches False [(backslash, backslash), (CHR ''/'', CHR ''/'')] c \<longleftrightarrow> c = backslash \<or> c = CHR ''/''"
  by (auto simp: atomMatches_def inRange_lit)


lemma isWindowsPath_iff:
  "isWindowsPath s \<longleftrightarrow>
     (\<exists>d c r. s = d # CHR '':'' # c # r \<and> isLetter d \<and> (c = backslash \<or> c = CHR ''/''))"
proof (cases s)
  case Nil
  then show ?thesis
    by (simp add: isWindowsPath_def test_def match_def windowsDrivePattern_def)
next
  case s1: (Cons d s')
  show ?thesis
  proof (cases s')
    case Nil
    with s1 show ?thesis
      by (simp add: isWindowsPath_def test_def match_def windowsDrivePattern_def)
  next
    case s2: (Cons k s'')
    show ?thesis
    proof (cases s'')
      case Nil
      with s1 s2 show ?thesis
        by (simp add: isWindowsPath_def test_def match_def windowsDrivePattern_def)
    next
      case (Cons c r)
      with s1 s2 show ?thesis
        by (simp add: isWindowsPath_def test_def match_def windowsDrivePattern_def
            atomMatches_AZaz atomMatches_seps atomMatches_lit_other isLetter_def isUpper_def
            isLower_def)
    qed
  qed
qed

lemma match_windows:
  "match windowsDrivePattern (d # CHR '':'' # c # r) =
     (if isLetter d \<and> (c = backslash \<or> c = CHR ''/'') then Some [d, CHR '':'', c] else None)"
  by (simp add: match_def windowsDrivePattern_def atomMatches_AZaz atomMatches_seps
      atomMatches_lit_other isLetter_def isUpper_def isLower_def)

lemma match_not_windows: "\<not> isWindowsPath s \<Longrightarrow> match windowsDrivePattern s = None"
  by (simp add: isWindowsPath_def test_def)

lemma matchPrefix_Cons:
  "matchPrefix ic (a # as) s \<noteq> None \<longleftrightarrow>
     (\<exists>c r. s = c # r \<and> atomMatches ic a c \<and> matchPrefix ic as r \<noteq> None)"
  by (cases s) auto

lemma matchPrefix_wsl:
  "matchPrefix True (atoms wslMountPattern) s \<noteq> None \<longleftrightarrow>
     (\<exists>m n t d r. s = CHR ''/'' # m # n # t # CHR ''/'' # d # CHR ''/'' # r
        \<and> lowerChar m = CHR ''m'' \<and> lowerChar n = CHR ''n'' \<and> lowerChar t = CHR ''t''
        \<and> isLetter d)"
proof -
  have lits: "atomMatches True (lit (CHR ''/'')) c \<longleftrightarrow> c = CHR ''/''"
    "atomMatches True (lit (CHR ''m'')) c \<longleftrightarrow> lowerChar c = CHR ''m''"
    "atomMatches True (lit (CHR ''n'')) c \<longleftrightarrow> lowerChar c = CHR ''n''"
    "atomMatches True (lit (CHR ''t'')) c \<longleftrightarrow> lowerChar c = CHR ''t''" for c
    by (simp_all add: atomMatches_lit_other atomMatches_lit_lower isLetter_def isUpper_def
        isLower_def)
  show ?thesis
    unfolding wslMountPattern_def
    by (simp only: RegExp.simps matchPrefix_Cons lits atomMatches_az_ic) auto
qed

lemma isWslMountPath_iff:
  "isWslMountPath s \<longleftrightarrow>
     (\<exists>m n t d r. s = CHR ''/'' # m # n # t # CHR ''/'' # d # CHR ''/'' # r
        \<and> lowerChar m = CHR ''m'' \<and> lowerChar n = CHR ''n'' \<and> lowerChar t = CHR ''t''
        \<and> isLetter d)"
  using matchPrefix_wsl [of s]
  by (simp add: isWslMountPath_def test_def match_def wslMountPattern_def)

lemma windows_wsl_disjoint: "isWindowsPath s \<Longrightarrow> \<not> isWslMountPath s"
  by (auto simp: isWindowsPath_iff isWslMountPath_iff isLetter_def isUpper_def isLower_def)

lemma windowsToWslPath_windows:
  assumes "isLetter d" "c = backslash \<or> c = CHR ''/''"
  shows "windowsToWslPath (d # CHR '':'' # c # r) =
           ''/mnt/'' @ lowerChar d # CHR ''/'' # replaceAll backslash (CHR ''/'') r"
  using assms by (auto simp: windowsToWslPath_def match_windows toLowerCase_def replaceAll_def)

lemma isLetter_lowerChar: "isLetter d \<Longrightarrow> isLetter (lowerChar d)"
  by (auto simp: isLetter_def isLower_def isUpper_def of_char_lowerChar)

lemma lowerChar_mnt:
  "lowerChar (CHR ''m'') = CHR ''m''" "lowerChar (CHR ''n'') = CHR ''n''"
  "lowerChar (CHR ''t'') = CHR ''t''"
  by (simp_all add: lowerChar_def isUpper_def)

lemma windowsToWslPath_isWslMount: "isWindowsPath s \<Longrightarrow> isWslMountPath (windowsToWslPath s)"
  by (auto simp: isWindowsPath_iff windowsToWslPath_windows isWslMountPath_iff
      isLetter_lowerChar lowerChar_mnt)


lemma lowerChar_eq_lower:
  "isLower a \<Longrightarrow> lowerChar c = a \<longleftrightarrow> c = a \<or> c = upperChar a"
  by (auto simp: char_eq_nat of_char_lowerChar of_char_upperChar isLower_def isUpper_def
      simp del: of_char_eq_iff split: if_splits)

lemma upperChar_mnt:
  "upperChar (CHR ''m'') = CHR ''M''" "upperChar (CHR ''n'') = CHR ''N''"
  "upperChar (CHR ''t'') = CHR ''T''"
  by code_simp+

lemma lowerChar_mnt_iff:
  "lowerChar c = CHR ''m'' \<longleftrightarrow> c = CHR ''m'' \<or> c = CHR ''M''"
  "lowerChar c = CHR ''n'' \<longleftrightarrow> c = CHR ''n'' \<or> c = CHR ''N''"
  "lowerChar c = CHR ''t'' \<longleftrightarrow> c = CHR ''t'' \<or> c = CHR ''T''"
  by (simp_all add: lowerChar_eq_lower isLower_def upperChar_mnt)

section \<open>The structure of toRelative\<close>

lemma getWindowsDriveLetter_windows:
  "isWindowsPath s \<Longrightarrow> getWindowsDriveLetter s = Some [lowerChar (hd s)]"
  by (auto simp: isWindowsPath_iff getWindowsDriveLetter_def match_windows toLowerCase_def)

lemma crossDrive_iff:
  "crossDrive f t \<longleftrightarrow>
     isWindowsPath f \<and> isWindowsPath t \<and> lowerChar (hd f) \<noteq> lowerChar (hd t)"
  by (auto simp: crossDrive_def getWindowsDriveLetter_windows)

lemma toRelative_chain:
  "toRelative posixPath pathNative (Some \<lparr>fsPath = f\<rparr>) (Some \<lparr>fsPath = t\<rparr>) =
     Some (if crossDrive f t then t
           else if wslFromWindowsTo f t then relative posixPath f (windowsToWslPath t)
           else if windowsFromWslTo f t then relative posixPath (windowsToWslPath f) t
           else standardCase pathNative f t)"
  by (simp add: toRelative_def crossDrive_def wslFromWindowsTo_def windowsFromWslTo_def
      standardCase_def Let_def)

lemma splitBy_nonempty: "splitBy p s \<noteq> []"
  by (induction s) (auto simp: Let_def)

lemma join_split: "join_str [d] (split_str c s) = replaceAll c d s"
proof (induction s)
  case Nil
  then show ?case by (simp add: split_str_def replaceAll_def)
next
  case (Cons x s)
  obtain y ys where r: "splitBy (\<lambda>a. a = c) s = y # ys"
    using splitBy_nonempty [of "\<lambda>a. a = c" s] by (cases "splitBy (\<lambda>a. a = c) s") auto
  with Cons show ?case
    by (cases ys) (auto simp: split_str_def replaceAll_def Let_def)
qed

lemma commonPrefixLength_self: "commonPrefixLength xs xs = length xs"
  by (induction xs) auto

lemma segmentRelative_self: "segmentRelative p c s s = []"
  by (simp add: segmentRelative_def Let_def commonPrefixLength_self)

lemma guards_disjoint:
  "\<not> (crossDrive f t \<and> wslFromWindowsTo f t)"
  "\<not> (crossDrive f t \<and> windowsFromWslTo f t)"
  "\<not> (wslFromWindowsTo f t \<and> windowsFromWslTo f t)"
  using windows_wsl_disjoint [of f] windows_wsl_disjoint [of t]
  by (auto simp: crossDrive_def wslFromWindowsTo_def windowsFromWslTo_def)

section \<open>Classification of paths\<close>

text \<open>
  C4 (amended). Classification is decided by the two patterns, for every string: a string is
  NativeWindows exactly when it starts with an ASCII letter, a colon and a backslash or forward
  slash; it is WslMount exactly when it starts with \<^verbatim>\<open>/mnt/\<close>, a letter and a slash, where
  the \<^verbatim>\<open>i\<close> flag makes the whole pattern case-insensitive, so each of \<^verbatim>\<open>m\<close>, \<^verbatim>\<open>n\<close>, \<^verbatim>\<open>t\<close>
  and the drive letter may be in either case; every other string is NativePosix, the empty
  string included. \<open>classify\<close> is a total function, so there is no error case.
\<close>

theorem classify_patterns:
  "(classify s = NativeWindows \<longleftrightarrow>
      (\<exists>d c r. s = d # CHR '':'' # c # r \<and> isLetter d \<and> (c = backslash \<or> c = CHR ''/'')))
   \<and> (classify s = WslMount \<longleftrightarrow>
      (\<exists>m n t d r. s = CHR ''/'' # m # n # t # CHR ''/'' # d # CHR ''/'' # r
         \<and> (m = CHR ''m'' \<or> m = CHR ''M'') \<and> (n = CHR ''n'' \<or> n = CHR ''N'')
         \<and> (t = CHR ''t'' \<or> t = CHR ''T'') \<and> isLetter d))
   \<and> (classify s = NativePosix \<longleftrightarrow> classify s \<noteq> NativeWindows \<and> classify s \<noteq> WslMount)
   \<and> (isWindowsPath s \<longleftrightarrow> classify s = NativeWindows)
   \<and> (isWslMountPath s \<longleftrightarrow> classify s = WslMount)"
proof -
  have w: "isWindowsPath s \<longleftrightarrow> classify s = NativeWindows"
    by (simp add: classify_def)
  have m: "isWslMountPath s \<longleftrightarrow> classify s = WslMount"
    using windows_wsl_disjoint [of s] by (auto simp: classify_def)
  have p: "classify s = NativePosix \<longleftrightarrow> classify s \<noteq> NativeWindows \<and> classify s \<noteq> WslMount"
    by (cases "classify s") simp_all
  have wsl: "isWslMountPath s \<longleftrightarrow>
      (\<exists>m n t d r. s = CHR ''/'' # m # n # t # CHR ''/'' # d # CHR ''/'' # r
         \<and> (m = CHR ''m'' \<or> m = CHR ''M'') \<and> (n = CHR ''n'' \<or> n = CHR ''N'')
         \<and> (t = CHR ''t'' \<or> t = CHR ''T'') \<and> isLetter d)"
    by (simp only: isWslMountPath_iff lowerChar_mnt_iff)
  show ?thesis
    using w m p isWindowsPath_iff [of s] wsl by blast
qed

theorem classify_patterns_witness:
  "classify (''D:'' @ [backslash] @ ''data'') = NativeWindows
   \<and> classify ''/mnt/d/data'' = WslMount
   \<and> classify [] = NativePosix
   \<and> classify ''not a path'' = NativePosix"
proof -
  have a: "classify (''D:'' @ [backslash] @ ''data'') = NativeWindows"
    using classify_patterns [of "''D:'' @ [backslash] @ ''data''"]
    by (simp add: isLetter_def isUpper_def)
  have b: "classify ''/mnt/d/data'' = WslMount"
    using classify_patterns [of "''/mnt/d/data''"]
    by (simp add: isLetter_def isLower_def)
  have c: "classify [] = NativePosix"
    using classify_patterns [of "[]"] by simp
  have d: "classify ''not a path'' = NativePosix"
    using classify_patterns [of "''not a path''"] by simp
  from a b c d show ?thesis by simp
qed

text \<open>
  C4 as stated fails: \<^verbatim>\<open>/MNT/c/x\<close> is classified WslMount, and it does not match
  \<^verbatim>\<open>^/mnt/[a-zA-Z]/\<close>, written here as a pattern without the \<^verbatim>\<open>i\<close> flag.
\<close>

theorem classify_wsl_counterexample:
  "classify ''/MNT/c/x'' = WslMount
   \<and> \<not> test \<lparr>atoms = [lit (CHR ''/''), lit (CHR ''m''), lit (CHR ''n''), lit (CHR ''t''),
                        lit (CHR ''/''), [(CHR ''a'', CHR ''z''), (CHR ''A'', CHR ''Z'')],
                        lit (CHR ''/'')],
               ignoreCase = False\<rparr> ''/MNT/c/x''"
  by code_simp

text \<open>
  C7. Classifying the output of \<open>windowsToWslPath\<close> yields WslMount for every string the
  conversion is applied to. \<open>toRelative\<close> applies it at two places, to \<^verbatim>\<open>toPath\<close> under the
  guard of the second case and to \<^verbatim>\<open>fromPath\<close> under the guard of the third, and both guards
  require the argument to be a Windows path; for every Windows path the output is a WSL mount
  path. On a string that is not a Windows path the conversion is the identity.
\<close>

theorem windowsToWslPath_reclassified:
  "(isWindowsPath s \<longrightarrow>
      isWslMountPath (windowsToWslPath s) \<and> classify (windowsToWslPath s) = WslMount)
   \<and> (wslFromWindowsTo f t \<longrightarrow>
      isWindowsPath t \<and> isWslMountPath (windowsToWslPath t)
      \<and> classify (windowsToWslPath t) = WslMount)
   \<and> (windowsFromWslTo f t \<longrightarrow>
      isWindowsPath f \<and> isWslMountPath (windowsToWslPath f)
      \<and> classify (windowsToWslPath f) = WslMount)
   \<and> (\<not> isWindowsPath s \<longrightarrow> windowsToWslPath s = s)"
proof -
  have w: "isWindowsPath x \<longrightarrow>
      isWslMountPath (windowsToWslPath x) \<and> classify (windowsToWslPath x) = WslMount" for x
    using windowsToWslPath_isWslMount [of x] windows_wsl_disjoint [of "windowsToWslPath x"]
    by (auto simp: classify_def)
  have i: "\<not> isWindowsPath s \<longrightarrow> windowsToWslPath s = s"
    by (simp add: windowsToWslPath_def match_not_windows)
  from w [of s] w [of t] w [of f] i show ?thesis
    by (simp add: wslFromWindowsTo_def windowsFromWslTo_def)
qed

theorem windowsToWslPath_reclassified_witness:
  "isWindowsPath (''C:'' @ [backslash] @ ''Users'')
   \<and> windowsToWslPath (''C:'' @ [backslash] @ ''Users'') = ''/mnt/c/Users''
   \<and> isWslMountPath ''/mnt/c/Users'' \<and> classify ''/mnt/c/Users'' = WslMount
   \<and> wslFromWindowsTo ''/mnt/c/w'' (''C:'' @ [backslash] @ ''Users'')
   \<and> windowsFromWslTo (''C:'' @ [backslash] @ ''Users'') ''/mnt/c/w''
   \<and> \<not> isWindowsPath ''/home/x/f.txt''
   \<and> windowsToWslPath ''/home/x/f.txt'' = ''/home/x/f.txt''"
proof -
  let ?w = "''C:'' @ [backslash] @ ''Users''"
  have h: "isWindowsPath ?w" "wslFromWindowsTo ''/mnt/c/w'' ?w"
    "windowsFromWslTo ?w ''/mnt/c/w''" "\<not> isWindowsPath ''/home/x/f.txt''"
    by code_simp+
  have e: "windowsToWslPath ?w = ''/mnt/c/Users''" by code_simp
  from h e windowsToWslPath_reclassified [of ?w "''/mnt/c/w''" ?w]
    windowsToWslPath_reclassified [of "''/home/x/f.txt''" ?w "''/mnt/c/w''"]
  show ?thesis by simp
qed

section \<open>Relative paths across dialects\<close>

text \<open>
  C1. When \<^verbatim>\<open>from\<close> is a WslMount path and \<^verbatim>\<open>to\<close> a NativeWindows path, \<open>toRelative\<close>
  converts \<^verbatim>\<open>to\<close> with \<open>windowsToWslPath\<close> and returns the POSIX relative path from
  \<^verbatim>\<open>from\<close> to the converted path; when \<^verbatim>\<open>from\<close> is NativeWindows and \<^verbatim>\<open>to\<close> is
  WslMount, it converts \<^verbatim>\<open>from\<close> and returns the POSIX relative path from the converted
  \<^verbatim>\<open>from\<close> to \<^verbatim>\<open>to\<close>. This holds for any \<^verbatim>\<open>path/posix\<close> module. With the segment-wise
  module \<open>posix\<close> the relative path is one \<^verbatim>\<open>..\<close> per non-common segment of \<^verbatim>\<open>from\<close>
  followed by the remaining segments of \<^verbatim>\<open>to\<close>, joined with forward slashes, and from
  \<^verbatim>\<open>/mnt/c/home/x/proj\<close> to \<^verbatim>\<open>C:\home\x\note.txt\<close> it is \<^verbatim>\<open>../note.txt\<close>.
\<close>

theorem toRelative_mixed:
  "(isWslMountPath f \<and> isWindowsPath t \<longrightarrow>
      toRelative posixPath pathNative (Some \<lparr>fsPath = f\<rparr>) (Some \<lparr>fsPath = t\<rparr>) =
        Some (relative posixPath f (windowsToWslPath t)))
   \<and> (isWindowsPath f \<and> isWslMountPath t \<longrightarrow>
      toRelative posixPath pathNative (Some \<lparr>fsPath = f\<rparr>) (Some \<lparr>fsPath = t\<rparr>) =
        Some (relative posixPath (windowsToWslPath f) t))
   \<and> relative posix a b =
        join_str ''/''
          (replicate
             (length (segments (\<lambda>c. c = CHR ''/'') a)
              - commonPrefixLength (segments (\<lambda>c. c = CHR ''/'') a)
                  (segments (\<lambda>c. c = CHR ''/'') b))
             ''..''
           @ drop (commonPrefixLength (segments (\<lambda>c. c = CHR ''/'') a)
                     (segments (\<lambda>c. c = CHR ''/'') b))
               (segments (\<lambda>c. c = CHR ''/'') b))
   \<and> toRelative posix pathNative (Some \<lparr>fsPath = ''/mnt/c/home/x/proj''\<rparr>)
        (Some \<lparr>fsPath = ''C:'' @ [backslash] @ ''home'' @ [backslash] @ ''x'' @ [backslash]
                          @ ''note.txt''\<rparr>) = Some ''../note.txt''"
proof -
  have c1: "isWslMountPath f \<and> isWindowsPath t \<longrightarrow>
      toRelative posixPath pathNative (Some \<lparr>fsPath = f\<rparr>) (Some \<lparr>fsPath = t\<rparr>) =
        Some (relative posixPath f (windowsToWslPath t))"
    using windows_wsl_disjoint [of f]
    by (auto simp: toRelative_chain crossDrive_def wslFromWindowsTo_def)
  have c2: "isWindowsPath f \<and> isWslMountPath t \<longrightarrow>
      toRelative posixPath pathNative (Some \<lparr>fsPath = f\<rparr>) (Some \<lparr>fsPath = t\<rparr>) =
        Some (relative posixPath (windowsToWslPath f) t)"
    using windows_wsl_disjoint [of f] windows_wsl_disjoint [of t]
    by (auto simp: toRelative_chain crossDrive_def wslFromWindowsTo_def windowsFromWslTo_def)
  have c3: "relative posix a b =
        join_str ''/''
          (replicate
             (length (segments (\<lambda>c. c = CHR ''/'') a)
              - commonPrefixLength (segments (\<lambda>c. c = CHR ''/'') a)
                  (segments (\<lambda>c. c = CHR ''/'') b))
             ''..''
           @ drop (commonPrefixLength (segments (\<lambda>c. c = CHR ''/'') a)
                     (segments (\<lambda>c. c = CHR ''/'') b))
               (segments (\<lambda>c. c = CHR ''/'') b))"
    by (simp add: posix_def segmentRelative_def Let_def)
  let ?f = "''/mnt/c/home/x/proj''"
  let ?t = "''C:'' @ [backslash] @ ''home'' @ [backslash] @ ''x'' @ [backslash] @ ''note.txt''"
  have g: "\<not> crossDrive ?f ?t" "wslFromWindowsTo ?f ?t"
    by code_simp+
  have r: "segmentRelative (\<lambda>c. c = CHR ''/'') (CHR ''/'') ?f (windowsToWslPath ?t) = ''../note.txt''"
    by code_simp
  have c4: "toRelative posix pathNative (Some \<lparr>fsPath = ?f\<rparr>) (Some \<lparr>fsPath = ?t\<rparr>)
              = Some ''../note.txt''"
    using g r by (simp only: toRelative_chain if_True if_False posix_def PathModule.simps)
  from c1 c2 c3 c4 show ?thesis by blast
qed

theorem toRelative_mixed_witness:
  "isWindowsPath ''D:/w/src'' \<and> isWslMountPath ''/mnt/d/w/lib/a.ts''
   \<and> toRelative posix win32 (Some \<lparr>fsPath = ''D:/w/src''\<rparr>) (Some \<lparr>fsPath = ''/mnt/d/w/lib/a.ts''\<rparr>)
       = Some ''../lib/a.ts''
   \<and> isWslMountPath ''/mnt/d/w/src'' \<and> isWindowsPath ''D:/w/lib/a.ts''
   \<and> toRelative posix win32 (Some \<lparr>fsPath = ''/mnt/d/w/src''\<rparr>) (Some \<lparr>fsPath = ''D:/w/lib/a.ts''\<rparr>)
       = Some ''../lib/a.ts''"
proof -
  have h: "isWindowsPath ''D:/w/src''" "isWslMountPath ''/mnt/d/w/lib/a.ts''"
    "isWslMountPath ''/mnt/d/w/src''" "isWindowsPath ''D:/w/lib/a.ts''"
    by code_simp+
  have r: "relative posix (windowsToWslPath ''D:/w/src'') ''/mnt/d/w/lib/a.ts'' = ''../lib/a.ts''"
    "relative posix ''/mnt/d/w/src'' (windowsToWslPath ''D:/w/lib/a.ts'') = ''../lib/a.ts''"
    by code_simp+
  from h r toRelative_mixed [of "''D:/w/src''" "''/mnt/d/w/lib/a.ts''" posix win32]
    toRelative_mixed [of "''/mnt/d/w/src''" "''D:/w/lib/a.ts''" posix win32]
  show ?thesis by simp
qed

text \<open>
  C2. For two NativeWindows paths whose drive letters differ, compared case-insensitively,
  \<open>toRelative\<close> returns the \<^verbatim>\<open>to\<close> path unchanged, whatever the path modules are; from
  \<^verbatim>\<open>E:\work\<close> to \<^verbatim>\<open>C:\data\f.txt\<close> the result is \<^verbatim>\<open>C:\data\f.txt\<close>.
\<close>

theorem toRelative_crossDrive:
  "(isWindowsPath f \<and> isWindowsPath t \<and> lowerChar (hd f) \<noteq> lowerChar (hd t) \<longrightarrow>
      toRelative posixPath pathNative (Some \<lparr>fsPath = f\<rparr>) (Some \<lparr>fsPath = t\<rparr>) = Some t)
   \<and> toRelative posixPath pathNative (Some \<lparr>fsPath = ''E:'' @ [backslash] @ ''work''\<rparr>)
        (Some \<lparr>fsPath = ''C:'' @ [backslash] @ ''data'' @ [backslash] @ ''f.txt''\<rparr>)
      = Some (''C:'' @ [backslash] @ ''data'' @ [backslash] @ ''f.txt'')"
proof -
  have g: "crossDrive (''E:'' @ [backslash] @ ''work'')
             (''C:'' @ [backslash] @ ''data'' @ [backslash] @ ''f.txt'')"
    by code_simp
  show ?thesis
    using g by (simp add: toRelative_chain crossDrive_iff)
qed

theorem toRelative_crossDrive_witness:
  "isWindowsPath ''e:/work'' \<and> isWindowsPath ''C:/data/f.txt''
   \<and> lowerChar (hd ''e:/work'') \<noteq> lowerChar (hd ''C:/data/f.txt'')
   \<and> toRelative posix win32 (Some \<lparr>fsPath = ''e:/work''\<rparr>) (Some \<lparr>fsPath = ''C:/data/f.txt''\<rparr>)
       = Some ''C:/data/f.txt''"
proof -
  have h: "isWindowsPath ''e:/work''" "isWindowsPath ''C:/data/f.txt''"
    "lowerChar (hd ''e:/work'') \<noteq> lowerChar (hd ''C:/data/f.txt'')"
    by code_simp+
  from h toRelative_crossDrive [of "''e:/work''" "''C:/data/f.txt''" posix win32]
  show ?thesis by simp
qed

text \<open>
  C3. In the standard case of \<open>toRelative\<close>, when none of the three guarded cases applies,
  the result is what \<^verbatim>\<open>pathNative.relative\<close> returns, unchanged, when \<^verbatim>\<open>from\<close> is
  NativeWindows, so the backslashes of a Windows host are kept; otherwise every occurrence of
  the host separator in it is replaced by a forward slash, so on a host whose separator is
  not the forward slash the result contains no host separator. From \<^verbatim>\<open>/a/b/c\<close> to
  \<^verbatim>\<open>/a/d\<close> the result is \<^verbatim>\<open>../../d\<close> on either host.
\<close>

theorem toRelative_standard:
  "(\<not> crossDrive f t \<and> \<not> wslFromWindowsTo f t \<and> \<not> windowsFromWslTo f t \<and> isWindowsPath f \<longrightarrow>
      toRelative posixPath pathNative (Some \<lparr>fsPath = f\<rparr>) (Some \<lparr>fsPath = t\<rparr>) =
        Some (relative pathNative f t))
   \<and> (\<not> crossDrive f t \<and> \<not> wslFromWindowsTo f t \<and> \<not> windowsFromWslTo f t \<and> \<not> isWindowsPath f \<longrightarrow>
      toRelative posixPath pathNative (Some \<lparr>fsPath = f\<rparr>) (Some \<lparr>fsPath = t\<rparr>) =
        Some (replaceAll (sep pathNative) (CHR ''/'') (relative pathNative f t))
      \<and> (sep pathNative \<noteq> CHR ''/'' \<longrightarrow>
           sep pathNative \<notin> set (the (toRelative posixPath pathNative (Some \<lparr>fsPath = f\<rparr>)
                                          (Some \<lparr>fsPath = t\<rparr>)))))
   \<and> toRelative posixPath (nativeModule host) (Some \<lparr>fsPath = ''/a/b/c''\<rparr>)
        (Some \<lparr>fsPath = ''/a/d''\<rparr>) = Some ''../../d''"
proof -
  have a: "\<not> crossDrive f t \<and> \<not> wslFromWindowsTo f t \<and> \<not> windowsFromWslTo f t \<and> isWindowsPath f \<longrightarrow>
      toRelative posixPath pathNative (Some \<lparr>fsPath = f\<rparr>) (Some \<lparr>fsPath = t\<rparr>) =
        Some (relative pathNative f t)"
    by (simp add: toRelative_chain standardCase_def)
  have b: "\<not> crossDrive f t \<and> \<not> wslFromWindowsTo f t \<and> \<not> windowsFromWslTo f t \<and> \<not> isWindowsPath f \<longrightarrow>
      toRelative posixPath pathNative (Some \<lparr>fsPath = f\<rparr>) (Some \<lparr>fsPath = t\<rparr>) =
        Some (replaceAll (sep pathNative) (CHR ''/'') (relative pathNative f t))
      \<and> (sep pathNative \<noteq> CHR ''/'' \<longrightarrow>
           sep pathNative \<notin> set (the (toRelative posixPath pathNative (Some \<lparr>fsPath = f\<rparr>)
                                          (Some \<lparr>fsPath = t\<rparr>))))"
    by (auto simp: toRelative_chain standardCase_def join_split replaceAll_def)
  have g: "\<not> crossDrive ''/a/b/c'' ''/a/d''" "\<not> wslFromWindowsTo ''/a/b/c'' ''/a/d''"
    "\<not> windowsFromWslTo ''/a/b/c'' ''/a/d''"
    by code_simp+
  have r: "standardCase posix ''/a/b/c'' ''/a/d'' = ''../../d''"
    "standardCase win32 ''/a/b/c'' ''/a/d'' = ''../../d''"
    by code_simp+
  have c: "toRelative posixPath (nativeModule host) (Some \<lparr>fsPath = ''/a/b/c''\<rparr>)
        (Some \<lparr>fsPath = ''/a/d''\<rparr>) = Some ''../../d''"
    using g r by (cases host) (simp_all only: toRelative_chain if_False nativeModule.simps)
  from a b c show ?thesis by blast
qed

theorem toRelative_standard_witness:
  "toRelative posix win32 (Some \<lparr>fsPath = ''C:/Users/x/proj/src''\<rparr>)
      (Some \<lparr>fsPath = ''C:/Users/x/note.txt''\<rparr>)
     = Some (''..'' @ [backslash] @ ''..'' @ [backslash] @ ''note.txt'')
   \<and> toRelative posix win32 (Some \<lparr>fsPath = ''/home/u/p/src''\<rparr>) (Some \<lparr>fsPath = ''/home/u/n/a.txt''\<rparr>)
     = Some ''../../n/a.txt''
   \<and> backslash \<notin> set (the (toRelative posix win32 (Some \<lparr>fsPath = ''/home/u/p/src''\<rparr>)
                               (Some \<lparr>fsPath = ''/home/u/n/a.txt''\<rparr>)))"
proof -
  let ?f = "''C:/Users/x/proj/src''" and ?t = "''C:/Users/x/note.txt''"
  let ?g = "''/home/u/p/src''" and ?u = "''/home/u/n/a.txt''"
  have h1: "\<not> crossDrive ?f ?t" "\<not> wslFromWindowsTo ?f ?t" "\<not> windowsFromWslTo ?f ?t"
    "isWindowsPath ?f"
    by code_simp+
  have h2: "\<not> crossDrive ?g ?u" "\<not> wslFromWindowsTo ?g ?u" "\<not> windowsFromWslTo ?g ?u"
    "\<not> isWindowsPath ?g"
    by code_simp+
  have r: "relative win32 ?f ?t = ''..'' @ [backslash] @ ''..'' @ [backslash] @ ''note.txt''"
    "replaceAll (sep win32) (CHR ''/'') (relative win32 ?g ?u) = ''../../n/a.txt''"
    "sep win32 = backslash"
    by code_simp+
  from h1 h2 r toRelative_standard [of ?f ?t posix win32] toRelative_standard [of ?g ?u posix win32]
  show ?thesis by simp
qed

lemma standardCase_empty:
  "relative pathNative p p = [] \<Longrightarrow> standardCase pathNative p p = []"
  by (simp add: standardCase_def split_str_def)

lemma toRelative_same:
  "toRelative posixPath pathNative (Some \<lparr>fsPath = p\<rparr>) (Some \<lparr>fsPath = p\<rparr>) =
     Some (standardCase pathNative p p)"
  using windows_wsl_disjoint [of p]
  by (auto simp: toRelative_chain crossDrive_def wslFromWindowsTo_def windowsFromWslTo_def)

lemma nativeModule_self: "relative (nativeModule host) p p = []"
  by (cases host) (simp_all add: posix_def win32_def segmentRelative_self)

text \<open>
  C8. Relativizing a path to itself yields the empty string, in every dialect: no guarded
  case of \<open>toRelative\<close> applies to identical paths, and the standard case keeps an empty
  relative path empty. This holds for any native path module whose \<^verbatim>\<open>relative\<close> maps a
  path and itself to the empty string, and the segment-wise modules of both hosts do.
\<close>

theorem toRelative_identical:
  "(relative pathNative p p = [] \<longrightarrow>
      toRelative posixPath pathNative (Some \<lparr>fsPath = p\<rparr>) (Some \<lparr>fsPath = p\<rparr>) = Some [])
   \<and> toRelative posixPath (nativeModule host) (Some \<lparr>fsPath = p\<rparr>) (Some \<lparr>fsPath = p\<rparr>) = Some []"
  by (simp add: toRelative_same standardCase_empty nativeModule_self)

theorem toRelative_identical_witness:
  "relative win32 (''C:'' @ [backslash] @ ''a'') (''C:'' @ [backslash] @ ''a'') = []
   \<and> toRelative posix win32 (Some \<lparr>fsPath = ''C:'' @ [backslash] @ ''a''\<rparr>)
        (Some \<lparr>fsPath = ''C:'' @ [backslash] @ ''a''\<rparr>) = Some []
   \<and> toRelative posix posix (Some \<lparr>fsPath = ''/mnt/c/a''\<rparr>) (Some \<lparr>fsPath = ''/mnt/c/a''\<rparr>) = Some []
   \<and> toRelative posix posix (Some \<lparr>fsPath = ''/home/u''\<rparr>) (Some \<lparr>fsPath = ''/home/u''\<rparr>) = Some []"
proof -
  have h: "relative win32 (''C:'' @ [backslash] @ ''a'') (''C:'' @ [backslash] @ ''a'') = []"
    by code_simp
  from h toRelative_identical [of win32 "''C:'' @ [backslash] @ ''a''" posix]
    toRelative_identical [of posix "''/mnt/c/a''" posix PosixHost]
    toRelative_identical [of posix "''/home/u''" posix PosixHost]
  show ?thesis by simp
qed

section \<open>The order of the cases\<close>

lemma firstMatch_none: "\<forall>b\<in>set bs. \<not> fst b \<Longrightarrow> firstMatch bs d = d"
  by (induction bs d rule: firstMatch.induct) auto

lemma firstMatch_unique:
  "(True, v) \<in> set bs \<Longrightarrow> \<forall>b\<in>set bs. fst b \<longrightarrow> snd b = v \<Longrightarrow> firstMatch bs d = v"
  by (induction bs d rule: firstMatch.induct) auto

lemma firstMatch_guardedCases:
  assumes "set bs = set (guardedCases posixPath f t)"
  shows "firstMatch bs (standardCase pathNative f t) =
           (if crossDrive f t then t
            else if wslFromWindowsTo f t then relative posixPath f (windowsToWslPath t)
            else if windowsFromWslTo f t then relative posixPath (windowsToWslPath f) t
            else standardCase pathNative f t)"
proof -
  consider (a) "crossDrive f t" | (b) "wslFromWindowsTo f t" | (c) "windowsFromWslTo f t"
    | (d) "\<not> crossDrive f t" "\<not> wslFromWindowsTo f t" "\<not> windowsFromWslTo f t"
    by blast
  then show ?thesis
  proof cases
    case a
    then have n: "\<not> wslFromWindowsTo f t" "\<not> windowsFromWslTo f t"
      using guards_disjoint [of f t] by auto
    have "firstMatch bs (standardCase pathNative f t) = t"
      by (rule firstMatch_unique) (use a n assms in \<open>auto simp: guardedCases_def\<close>)
    with a show ?thesis by simp
  next
    case b
    then have n: "\<not> crossDrive f t" "\<not> windowsFromWslTo f t"
      using guards_disjoint [of f t] by auto
    have "firstMatch bs (standardCase pathNative f t) = relative posixPath f (windowsToWslPath t)"
      by (rule firstMatch_unique) (use b n assms in \<open>auto simp: guardedCases_def\<close>)
    with b n show ?thesis by simp
  next
    case c
    then have n: "\<not> crossDrive f t" "\<not> wslFromWindowsTo f t"
      using guards_disjoint [of f t] by auto
    have "firstMatch bs (standardCase pathNative f t) = relative posixPath (windowsToWslPath f) t"
      by (rule firstMatch_unique) (use c n assms in \<open>auto simp: guardedCases_def\<close>)
    with c n show ?thesis by simp
  next
    case d
    have "firstMatch bs (standardCase pathNative f t) = standardCase pathNative f t"
      by (rule firstMatch_none) (use d assms in \<open>auto simp: guardedCases_def\<close>)
    with d show ?thesis by simp
  qed
qed

lemma toRelative_byDialect_chain:
  "toRelative_byDialect posixPath pathNative f t =
     (if crossDrive f t then t
      else if wslFromWindowsTo f t then relative posixPath f (windowsToWslPath t)
      else if windowsFromWslTo f t then relative posixPath (windowsToWslPath f) t
      else standardCase pathNative f t)"
  using windows_wsl_disjoint [of f] windows_wsl_disjoint [of t]
  by (auto simp: toRelative_byDialect_def classify_def crossDrive_def wslFromWindowsTo_def
      windowsFromWslTo_def getWindowsDriveLetter_windows)

text \<open>
  C9. No string is both a Windows path and a WSL mount path; so the three guarded cases of
  \<open>toRelative\<close> are pairwise disjoint, evaluating them first-match in any order (any
  permutation of the list of guarded cases, with the standard case as the default) gives the
  result of \<open>toRelative\<close>, and the conditional chain equals the closed case analysis over
  the pair of dialects.
\<close>

theorem toRelative_order_independent:
  "\<not> (isWindowsPath s \<and> isWslMountPath s)
   \<and> \<not> (crossDrive f t \<and> wslFromWindowsTo f t)
   \<and> \<not> (crossDrive f t \<and> windowsFromWslTo f t)
   \<and> \<not> (wslFromWindowsTo f t \<and> windowsFromWslTo f t)
   \<and> (\<forall>bs. mset bs = mset (guardedCases posixPath f t) \<longrightarrow>
        toRelative posixPath pathNative (Some \<lparr>fsPath = f\<rparr>) (Some \<lparr>fsPath = t\<rparr>) =
          Some (firstMatch bs (standardCase pathNative f t)))
   \<and> toRelative posixPath pathNative (Some \<lparr>fsPath = f\<rparr>) (Some \<lparr>fsPath = t\<rparr>) =
        Some (toRelative_byDialect posixPath pathNative f t)"
proof -
  have o: "\<forall>bs. mset bs = mset (guardedCases posixPath f t) \<longrightarrow>
        toRelative posixPath pathNative (Some \<lparr>fsPath = f\<rparr>) (Some \<lparr>fsPath = t\<rparr>) =
          Some (firstMatch bs (standardCase pathNative f t))"
  proof (intro allI impI)
    fix bs
    assume "mset bs = mset (guardedCases posixPath f t)"
    then have "set bs = set (guardedCases posixPath f t)"
      by (rule mset_eq_setD)
    then show "toRelative posixPath pathNative (Some \<lparr>fsPath = f\<rparr>) (Some \<lparr>fsPath = t\<rparr>) =
          Some (firstMatch bs (standardCase pathNative f t))"
      by (simp only: toRelative_chain firstMatch_guardedCases)
  qed
  have c: "toRelative posixPath pathNative (Some \<lparr>fsPath = f\<rparr>) (Some \<lparr>fsPath = t\<rparr>) =
        Some (toRelative_byDialect posixPath pathNative f t)"
    by (simp only: toRelative_chain toRelative_byDialect_chain)
  from o c guards_disjoint [of f t] windows_wsl_disjoint [of s] show ?thesis by blast
qed

theorem toRelative_order_independent_witness:
  "toRelative posix win32 (Some \<lparr>fsPath = ''/mnt/d/w/src''\<rparr>) (Some \<lparr>fsPath = ''D:/w/lib/a.ts''\<rparr>)
     = Some (firstMatch
         [(windowsFromWslTo ''/mnt/d/w/src'' ''D:/w/lib/a.ts'',
             relative posix (windowsToWslPath ''/mnt/d/w/src'') ''D:/w/lib/a.ts''),
          (crossDrive ''/mnt/d/w/src'' ''D:/w/lib/a.ts'', ''D:/w/lib/a.ts''),
          (wslFromWindowsTo ''/mnt/d/w/src'' ''D:/w/lib/a.ts'',
             relative posix ''/mnt/d/w/src'' (windowsToWslPath ''D:/w/lib/a.ts''))]
         (standardCase win32 ''/mnt/d/w/src'' ''D:/w/lib/a.ts''))
   \<and> toRelative_byDialect posix win32 ''/mnt/d/w/src'' ''D:/w/lib/a.ts'' = ''../lib/a.ts''
   \<and> toRelative posix win32 (Some \<lparr>fsPath = ''/mnt/d/w/src''\<rparr>) (Some \<lparr>fsPath = ''D:/w/lib/a.ts''\<rparr>)
     = Some ''../lib/a.ts''"
proof -
  let ?f = "''/mnt/d/w/src''" and ?t = "''D:/w/lib/a.ts''"
  let ?bs = "[(windowsFromWslTo ?f ?t, relative posix (windowsToWslPath ?f) ?t),
              (crossDrive ?f ?t, ?t),
              (wslFromWindowsTo ?f ?t, relative posix ?f (windowsToWslPath ?t))]"
  have p: "mset ?bs = mset (guardedCases posix ?f ?t)"
    by (simp add: guardedCases_def)
  have v: "toRelative_byDialect posix win32 ?f ?t = ''../lib/a.ts''"
    by code_simp
  have all: "\<forall>bs. mset bs = mset (guardedCases posix ?f ?t) \<longrightarrow>
      toRelative posix win32 (Some \<lparr>fsPath = ?f\<rparr>) (Some \<lparr>fsPath = ?t\<rparr>) =
        Some (firstMatch bs (standardCase win32 ?f ?t))"
    and byD: "toRelative posix win32 (Some \<lparr>fsPath = ?f\<rparr>) (Some \<lparr>fsPath = ?t\<rparr>) =
        Some (toRelative_byDialect posix win32 ?f ?t)"
    using toRelative_order_independent [of "[]" ?f ?t posix win32] by blast+
  from all p have o: "toRelative posix win32 (Some \<lparr>fsPath = ?f\<rparr>) (Some \<lparr>fsPath = ?t\<rparr>) =
        Some (firstMatch ?bs (standardCase win32 ?f ?t))"
    by blast
  from byD v have e: "toRelative posix win32 (Some \<lparr>fsPath = ?f\<rparr>) (Some \<lparr>fsPath = ?t\<rparr>) =
        Some ''../lib/a.ts''"
    by (simp only:)
  from o v e show ?thesis by blast
qed

section \<open>The mention text\<close>

lemma setMentionStrings_None:
  "setMentionStrings posixPath pathNative env fmt = None \<longleftrightarrow>
     getRelativePathWithTerminal posixPath pathNative (activeTextEditor env) (activeTerminal env)
       \<in> {None, Some []}"
  by (cases "getRelativePathWithTerminal posixPath pathNative (activeTextEditor env)
        (activeTerminal env)")
    (simp_all add: setMentionStrings_def Let_def)

lemma toRelative_None:
  "toRelative posixPath pathNative fromUri toUri = None \<longleftrightarrow> fromUri = None \<or> toUri = None"
  by (cases fromUri; cases toUri) (simp_all add: toRelative_def Let_def)

text \<open>
  C10. When the computed relative path is the empty string, as it is for identical
  \<^verbatim>\<open>from\<close> and \<^verbatim>\<open>to\<close>, the mention command sends nothing to the terminal: the guard of
  \<open>setMentionStrings\<close> treats the empty string like the absent result, and these are the
  only two cases in which it sends nothing. \<open>toRelative\<close> returns the absent result only
  when \<^verbatim>\<open>from\<close> or \<^verbatim>\<open>to\<close> is absent.
\<close>

theorem setMentionStrings_empty_path:
  "(getRelativePathWithTerminal posixPath pathNative (activeTextEditor env) (activeTerminal env)
      = Some [] \<longrightarrow> setMentionStrings posixPath pathNative env fmt = None)
   \<and> (setMentionStrings posixPath pathNative env fmt = None \<longleftrightarrow>
        getRelativePathWithTerminal posixPath pathNative (activeTextEditor env)
          (activeTerminal env) = Some []
        \<or> getRelativePathWithTerminal posixPath pathNative (activeTextEditor env)
          (activeTerminal env) = None)
   \<and> (toRelative posixPath pathNative fromUri toUri = None \<longleftrightarrow> fromUri = None \<or> toUri = None)
   \<and> setMentionStrings posixPath (nativeModule host)
        \<lparr>prefixString = pre, suffixString = suf,
         activeTextEditor = Some \<lparr>documentUri = Some \<lparr>fsPath = p\<rparr>, selection = sel\<rparr>,
         activeTerminal = Some \<lparr>shellIntegration = Some \<lparr>cwd = Some \<lparr>fsPath = p\<rparr>\<rparr>\<rparr>\<rparr> fmt
       = None"
proof -
  have d: "setMentionStrings posixPath (nativeModule host)
        \<lparr>prefixString = pre, suffixString = suf,
         activeTextEditor = Some \<lparr>documentUri = Some \<lparr>fsPath = p\<rparr>, selection = sel\<rparr>,
         activeTerminal = Some \<lparr>shellIntegration = Some \<lparr>cwd = Some \<lparr>fsPath = p\<rparr>\<rparr>\<rparr>\<rparr> fmt
       = None"
    by (simp add: setMentionStrings_None getRelativePathWithTerminal_def toRelative_same
        standardCase_empty nativeModule_self)
  from d setMentionStrings_None [of posixPath pathNative env fmt]
    toRelative_None [of posixPath pathNative fromUri toUri]
  show ?thesis by auto
qed

theorem setMentionStrings_empty_path_witness:
  "getRelativePathWithTerminal posix posix
      (Some \<lparr>documentUri = Some \<lparr>fsPath = ''/w/a.ts''\<rparr>,
             selection = \<lparr>isEmpty = True, start_line = 0, end_line = 0\<rparr>\<rparr>)
      (Some \<lparr>shellIntegration = Some \<lparr>cwd = Some \<lparr>fsPath = ''/w/a.ts''\<rparr>\<rparr>\<rparr>) = Some []
   \<and> setMentionStrings posix posix
       \<lparr>prefixString = ''@'', suffixString = '':'',
        activeTextEditor = Some \<lparr>documentUri = Some \<lparr>fsPath = ''/w/a.ts''\<rparr>,
             selection = \<lparr>isEmpty = True, start_line = 0, end_line = 0\<rparr>\<rparr>,
        activeTerminal = Some \<lparr>shellIntegration = Some \<lparr>cwd = Some \<lparr>fsPath = ''/w/a.ts''\<rparr>\<rparr>\<rparr>\<rparr>
       getCodexFormatLineSelected = None"
proof -
  let ?ed = "Some \<lparr>documentUri = Some \<lparr>fsPath = ''/w/a.ts''\<rparr>,
             selection = \<lparr>isEmpty = True, start_line = 0, end_line = 0\<rparr>\<rparr>"
  let ?tm = "Some \<lparr>shellIntegration = Some \<lparr>cwd = Some \<lparr>fsPath = ''/w/a.ts''\<rparr>\<rparr>\<rparr>"
  let ?env = "\<lparr>prefixString = ''@'', suffixString = '':'', activeTextEditor = ?ed,
               activeTerminal = ?tm\<rparr>"
  have h: "getRelativePathWithTerminal posix posix ?ed ?tm = Some []"
    by code_simp
  from h setMentionStrings_empty_path [of posix posix ?env getCodexFormatLineSelected]
  show ?thesis by simp
qed

lemma setMentionStrings_Some:
  assumes "getRelativePathWithTerminal posixPath pathNative (activeTextEditor env)
             (activeTerminal env) = Some rp"
    and "rp \<noteq> []" and "activeTextEditor env = Some ed"
  shows "setMentionStrings posixPath pathNative env fmt =
           Some (prefixString env @ rp
                 @ (if isEmpty (selection ed) then []
                    else fmt (start_line (selection ed) + 1) (end_line (selection ed) + 1))
                 @ '' '')"
  using assms by (simp add: setMentionStrings_def Let_def)

text \<open>
  C5 (amended). For every non-empty relative path, the text a mention command sends is the
  configured prefix, the relative path, the line suffix and one trailing space. The line
  suffix is absent when the selection is empty. Otherwise, with the 1-based lines
  \<open>startLine\<close> and \<open>endLine\<close> of the selection, it is \<^verbatim>\<open>#L{startLine}\<close> or
  \<^verbatim>\<open>#L{startLine}-{endLine}\<close> for Claude Code, \<^verbatim>\<open>:{startLine}\<close> or
  \<^verbatim>\<open>:{startLine}-{endLine}\<close> for Codex, and the configured suffix followed by
  \<^verbatim>\<open>{startLine}\<close> or \<^verbatim>\<open>{startLine}-{endLine}\<close> for the custom format, the short form
  exactly when both lines are equal.
\<close>

theorem mention_text:
  assumes "getRelativePathWithTerminal posixPath pathNative (activeTextEditor env)
             (activeTerminal env) = Some rp"
    and "rp \<noteq> []" and "activeTextEditor env = Some ed"
  shows "claudecodeMention posixPath pathNative env =
           Some (prefixString env @ rp
                 @ (if isEmpty (selection ed) then []
                    else if start_line (selection ed) + 1 = end_line (selection ed) + 1
                    then ''#L'' @ numberToString (start_line (selection ed) + 1)
                    else ''#L'' @ numberToString (start_line (selection ed) + 1) @ ''-''
                           @ numberToString (end_line (selection ed) + 1))
                 @ '' '')
         \<and> codexMention posixPath pathNative env =
           Some (prefixString env @ rp
                 @ (if isEmpty (selection ed) then []
                    else if start_line (selection ed) + 1 = end_line (selection ed) + 1
                    then '':'' @ numberToString (start_line (selection ed) + 1)
                    else '':'' @ numberToString (start_line (selection ed) + 1) @ ''-''
                           @ numberToString (end_line (selection ed) + 1))
                 @ '' '')
         \<and> customMention posixPath pathNative env =
           Some (prefixString env @ rp
                 @ (if isEmpty (selection ed) then []
                    else if start_line (selection ed) + 1 = end_line (selection ed) + 1
                    then suffixString env @ numberToString (start_line (selection ed) + 1)
                    else suffixString env @ numberToString (start_line (selection ed) + 1) @ ''-''
                           @ numberToString (end_line (selection ed) + 1))
                 @ '' '')"
  by (simp add: claudecodeMention_def codexMention_def customMention_def
      setMentionStrings_Some [OF assms] getClaudeCodeFormatLineSelected_def
      getCodexFormatLineSelected_def getCustomFormatLineSelected_def)

theorem mention_text_witness:
  "claudecodeMention posix posix
     \<lparr>prefixString = ''@'', suffixString = '':'',
      activeTextEditor = Some \<lparr>documentUri = Some \<lparr>fsPath = ''/home/u/p/a/b.js''\<rparr>,
             selection = \<lparr>isEmpty = False, start_line = 14, end_line = 29\<rparr>\<rparr>,
      activeTerminal = Some \<lparr>shellIntegration = Some \<lparr>cwd = Some \<lparr>fsPath = ''/home/u/p''\<rparr>\<rparr>\<rparr>\<rparr>
     = Some ''@a/b.js#L15-30 ''
   \<and> codexMention posix posix
     \<lparr>prefixString = ''@'', suffixString = '':'',
      activeTextEditor = Some \<lparr>documentUri = Some \<lparr>fsPath = ''/home/u/p/a/b.js''\<rparr>,
             selection = \<lparr>isEmpty = False, start_line = 14, end_line = 14\<rparr>\<rparr>,
      activeTerminal = Some \<lparr>shellIntegration = Some \<lparr>cwd = Some \<lparr>fsPath = ''/home/u/p''\<rparr>\<rparr>\<rparr>\<rparr>
     = Some ''@a/b.js:15 ''
   \<and> customMention posix posix
     \<lparr>prefixString = ''#'', suffixString = ''#L'',
      activeTextEditor = Some \<lparr>documentUri = Some \<lparr>fsPath = ''/home/u/p/a/b.js''\<rparr>,
             selection = \<lparr>isEmpty = False, start_line = 14, end_line = 29\<rparr>\<rparr>,
      activeTerminal = Some \<lparr>shellIntegration = Some \<lparr>cwd = Some \<lparr>fsPath = ''/home/u/p''\<rparr>\<rparr>\<rparr>\<rparr>
     = Some ''#a/b.js#L15-30 ''
   \<and> codexMention posix posix
     \<lparr>prefixString = ''@'', suffixString = '':'',
      activeTextEditor = Some \<lparr>documentUri = Some \<lparr>fsPath = ''/home/u/p/a/b.js''\<rparr>,
             selection = \<lparr>isEmpty = True, start_line = 14, end_line = 14\<rparr>\<rparr>,
      activeTerminal = Some \<lparr>shellIntegration = Some \<lparr>cwd = Some \<lparr>fsPath = ''/home/u/p''\<rparr>\<rparr>\<rparr>\<rparr>
     = Some ''@a/b.js ''"
proof -
  let ?tm = "Some \<lparr>shellIntegration = Some \<lparr>cwd = Some \<lparr>fsPath = ''/home/u/p''\<rparr>\<rparr>\<rparr>"
  let ?e1 = "\<lparr>documentUri = Some \<lparr>fsPath = ''/home/u/p/a/b.js''\<rparr>,
             selection = \<lparr>isEmpty = False, start_line = 14, end_line = 29\<rparr>\<rparr>"
  let ?e2 = "\<lparr>documentUri = Some \<lparr>fsPath = ''/home/u/p/a/b.js''\<rparr>,
             selection = \<lparr>isEmpty = False, start_line = 14, end_line = 14\<rparr>\<rparr>"
  let ?e3 = "\<lparr>documentUri = Some \<lparr>fsPath = ''/home/u/p/a/b.js''\<rparr>,
             selection = \<lparr>isEmpty = True, start_line = 14, end_line = 14\<rparr>\<rparr>"
  have r: "getRelativePathWithTerminal posix posix (Some ?e1) ?tm = Some ''a/b.js''"
    "getRelativePathWithTerminal posix posix (Some ?e2) ?tm = Some ''a/b.js''"
    "getRelativePathWithTerminal posix posix (Some ?e3) ?tm = Some ''a/b.js''"
    by code_simp+
  have n: "numberToString 15 = ''15''" "numberToString 30 = ''30''"
    by code_simp+
  have ne: "''a/b.js'' \<noteq> []" by simp
  have a: "claudecodeMention posix posix
     \<lparr>prefixString = ''@'', suffixString = '':'', activeTextEditor = Some ?e1,
      activeTerminal = ?tm\<rparr> = Some ''@a/b.js#L15-30 ''"
    using mention_text [of posix posix "\<lparr>prefixString = ''@'', suffixString = '':'',
      activeTextEditor = Some ?e1, activeTerminal = ?tm\<rparr>" "''a/b.js''" ?e1] r n
    by simp
  have b: "codexMention posix posix
     \<lparr>prefixString = ''@'', suffixString = '':'', activeTextEditor = Some ?e2,
      activeTerminal = ?tm\<rparr> = Some ''@a/b.js:15 ''"
    using mention_text [of posix posix "\<lparr>prefixString = ''@'', suffixString = '':'',
      activeTextEditor = Some ?e2, activeTerminal = ?tm\<rparr>" "''a/b.js''" ?e2] r n
    by simp
  have c: "customMention posix posix
     \<lparr>prefixString = ''#'', suffixString = ''#L'', activeTextEditor = Some ?e1,
      activeTerminal = ?tm\<rparr> = Some ''#a/b.js#L15-30 ''"
    using mention_text [of posix posix "\<lparr>prefixString = ''#'', suffixString = ''#L'',
      activeTextEditor = Some ?e1, activeTerminal = ?tm\<rparr>" "''a/b.js''" ?e1] r n
    by simp
  have d: "codexMention posix posix
     \<lparr>prefixString = ''@'', suffixString = '':'', activeTextEditor = Some ?e3,
      activeTerminal = ?tm\<rparr> = Some ''@a/b.js ''"
    using mention_text [of posix posix "\<lparr>prefixString = ''@'', suffixString = '':'',
      activeTextEditor = Some ?e3, activeTerminal = ?tm\<rparr>" "''a/b.js''" ?e3] r n
    by simp
  from a b c d show ?thesis by blast
qed

text \<open>
  C5 as stated fails at the empty relative path: with the terminal in the directory that is
  the path of the active file the relative path is the empty string, and the command sends
  nothing, not the prefix followed by a space.
\<close>

theorem mention_text_empty_path_counterexample:
  "getRelativePathWithTerminal posix posix
      (Some \<lparr>documentUri = Some \<lparr>fsPath = ''/home/u/p''\<rparr>,
             selection = \<lparr>isEmpty = True, start_line = 0, end_line = 0\<rparr>\<rparr>)
      (Some \<lparr>shellIntegration = Some \<lparr>cwd = Some \<lparr>fsPath = ''/home/u/p''\<rparr>\<rparr>\<rparr>) = Some []
   \<and> codexMention posix posix
       \<lparr>prefixString = ''@'', suffixString = '':'',
        activeTextEditor = Some \<lparr>documentUri = Some \<lparr>fsPath = ''/home/u/p''\<rparr>,
             selection = \<lparr>isEmpty = True, start_line = 0, end_line = 0\<rparr>\<rparr>,
        activeTerminal = Some \<lparr>shellIntegration = Some \<lparr>cwd = Some \<lparr>fsPath = ''/home/u/p''\<rparr>\<rparr>\<rparr>\<rparr>
       = None
   \<and> codexMention posix posix
       \<lparr>prefixString = ''@'', suffixString = '':'',
        activeTextEditor = Some \<lparr>documentUri = Some \<lparr>fsPath = ''/home/u/p''\<rparr>,
             selection = \<lparr>isEmpty = True, start_line = 0, end_line = 0\<rparr>\<rparr>,
        activeTerminal = Some \<lparr>shellIntegration = Some \<lparr>cwd = Some \<lparr>fsPath = ''/home/u/p''\<rparr>\<rparr>\<rparr>\<rparr>
       \<noteq> Some (''@'' @ [] @ [] @ '' '')"
  by code_simp

section \<open>The quick fix text\<close>

text \<open>
  C6 (amended). For every file path, prompt and diagnostic, the quick fix sends the prompt,
  an empty line, the character \<^verbatim>\<open>@\<close>, the path, \<^verbatim>\<open>#L\<close> and the start line, then a
  hyphen and the end line exactly when the range spans more than one line, a line break, the
  severity, a colon with a space and the message. The start and end lines are the 0-based
  lines of the range plus one, the \<^verbatim>\<open>@\<close> and \<^verbatim>\<open>#L\<close> are fixed, and the four
  severities of the enum are rendered as Error, Warning, Information and Hint.
\<close>

theorem sendToTerminal_block:
  "sendToTerminal quickFixPrompt filePath d =
     quickFixPrompt @ [newline, newline]
     @ ''@'' @ filePath @ ''#L'' @ numberToString (rangeStartLine d + 1)
     @ (if rangeStartLine d = rangeEndLine d then []
        else ''-'' @ numberToString (rangeEndLine d + 1))
     @ [newline] @ getDiagnosticSeverityString (severity d) @ '': '' @ message d
   \<and> getDiagnosticSeverityString Error = ''Error''
   \<and> getDiagnosticSeverityString Warning = ''Warning''
   \<and> getDiagnosticSeverityString Information = ''Information''
   \<and> getDiagnosticSeverityString Hint = ''Hint''"
  by (simp add: sendToTerminal_def Let_def getDiagnosticSeverityString_def Error_def Warning_def
      Information_def Hint_def)

theorem sendToTerminal_block_witness:
  "sendToTerminal ''Fix it.'' ''src/a.ts''
     \<lparr>rangeStartLine = 9, rangeEndLine = 11, severity = Warning, message = ''unused''\<rparr>
   = ''Fix it.'' @ [newline, newline] @ ''@src/a.ts#L10-12'' @ [newline] @ ''Warning: unused''"
proof -
  have n: "numberToString 10 = ''10''" "numberToString 12 = ''12''"
    by code_simp+
  from n sendToTerminal_block [of "''Fix it.''" "''src/a.ts''"
      "\<lparr>rangeStartLine = 9, rangeEndLine = 11, severity = Warning, message = ''unused''\<rparr>"]
  show ?thesis by simp
qed

text \<open>
  C6 as stated fails: for a diagnostic on the 0-based line 9 the block does not carry the
  0-based value, it carries \<^verbatim>\<open>#L10\<close>.
\<close>

theorem sendToTerminal_zero_based_counterexample:
  "sendToTerminal ''Fix it.'' ''src/a.ts''
     \<lparr>rangeStartLine = 9, rangeEndLine = 9, severity = Error, message = ''bad''\<rparr>
   \<noteq> ''Fix it.'' @ [newline, newline] @ ''@src/a.ts#L'' @ numberToString 9 @ [newline]
       @ ''Error: bad''"
  by code_simp

end
